theory Spec2Isabelle
  imports Complex_Main "HOL-Library.Sublist" "HOL-Library.AList"
begin

section \<open>Text, bytes, the environment and JSON values\<close>

text \<open>
  A Python \<^verbatim>\<open>str\<close> is a sequence of Unicode code points, here a list of numbers (a
  code point is a number below 0x110000); \<^verbatim>\<open>len\<close> is the length of that list and
  a slice takes elements of it. A \<^verbatim>\<open>bytes\<close> object is a list of 8-bit characters.
  \<^verbatim>\<open>str\<close> below writes an ASCII literal of the source as code points.
  The process environment \<^verbatim>\<open>os.environ\<close> is a dictionary from names to values,
  held as an association list in iteration order.
\<close>

type_synonym pystr = "nat list"

type_synonym bytes = "char list"

definition str :: "string \<Rightarrow> pystr" where
  "str s = map of_char s"

type_synonym environ = "(pystr \<times> pystr) list"

text \<open>\<^verbatim>\<open>os.environ.get(key)\<close>: the value, or \<^verbatim>\<open>None\<close>.\<close>

definition environ_get :: "environ \<Rightarrow> pystr \<Rightarrow> pystr option" where
  "environ_get env key = map_of env key"

text \<open>\<^verbatim>\<open>os.environ.get(key, default)\<close> with a text default.\<close>

definition environ_get_default :: "environ \<Rightarrow> pystr \<Rightarrow> pystr \<Rightarrow> pystr" where
  "environ_get_default env key dflt = (case map_of env key of None \<Rightarrow> dflt | Some v \<Rightarrow> v)"

text \<open>
  \<^verbatim>\<open>needle in hay\<close> on text: \<^verbatim>\<open>needle\<close> occurs in \<^verbatim>\<open>hay\<close> as a contiguous run,
  found by trying every start position from the left.
\<close>

fun contains :: "'a list \<Rightarrow> 'a list \<Rightarrow> bool" where
  "contains [] needle = (needle = [])"
| "contains (c # cs) needle = (prefix needle (c # cs) \<or> contains cs needle)"

text \<open>
  \<^verbatim>\<open>str.upper()\<close> replaces every code point by its upper-case form in the Unicode
  tables, which is one code point or several (the sharp s becomes SS). The table
  belongs to the interpreter and is a parameter here: \<^verbatim>\<open>to_upper c\<close> is the
  upper-case form of \<^verbatim>\<open>c\<close>.
\<close>

definition upper :: "(nat \<Rightarrow> pystr) \<Rightarrow> pystr \<Rightarrow> pystr" where
  "upper to_upper s = concat (map to_upper s)"

text \<open>\<^verbatim>\<open>bool(x)\<close> for \<^verbatim>\<open>x\<close> a text or \<^verbatim>\<open>None\<close>: false on \<^verbatim>\<open>None\<close> and on the empty text.\<close>

fun truthy :: "pystr option \<Rightarrow> bool" where
  "truthy None = False"
| "truthy (Some v) = (v \<noteq> [])"

text \<open>
  The values the handlers put into their dictionaries, and what a handler returns:
  a status code with either plain text or a dictionary handed to \<^verbatim>\<open>jsonify\<close>.
\<close>

datatype jvalue = JString pystr | JBool bool | JNumber real

datatype payload = Text pystr | Json "(pystr \<times> jvalue) list"

record response =
  code :: nat
  body :: payload

section \<open>The full-stack demo API (api.py)\<close>

definition health :: "environ \<Rightarrow> response" where
  "health env = \<lparr>code = 200, body = Text (str ''OK'')\<rparr>"

text \<open>\<^verbatim>\<open>index\<close> reads the clock; the reading \<^verbatim>\<open>time.time()\<close> is passed in.\<close>

definition index :: "environ \<Rightarrow> real \<Rightarrow> response" where
  "index env now = \<lparr>code = 200, body = Json
     [(str ''service'', JString (str ''Full-Stack Demo API'')),
      (str ''version'', JString (str ''1.0.0'')),
      (str ''environment'', JString (environ_get_default env (str ''APP_ENV'') (str ''unknown''))),
      (str ''timestamp'', JNumber now)]\<rparr>"

definition secrets :: "pystr list" where
  "secrets = [str ''KEY'', str ''SECRET'', str ''PASSWORD'', str ''TOKEN'']"

text \<open>The test of line 30: some marker occurs in the upper-cased name.\<close>

definition is_secret :: "(nat \<Rightarrow> pystr) \<Rightarrow> pystr \<Rightarrow> bool" where
  "is_secret to_upper key = list_ex (\<lambda>secret. contains (upper to_upper key) secret) secrets"

text \<open>
  The conditional expression of line 31: \<^verbatim>\<open>len(value)\<close> and \<^verbatim>\<open>value[:4]\<close> count
  code points.
\<close>

definition mask :: "pystr \<Rightarrow> pystr" where
  "mask v = (if length v > 4 then take 4 v @ str ''****'' else str ''****'')"

text \<open>
  The loop of \<^verbatim>\<open>show_env\<close>: one assignment \<^verbatim>\<open>safe_env[key] = ...\<close> per item, on a
  dictionary that starts empty.
\<close>

definition show_env_step :: "(nat \<Rightarrow> pystr) \<Rightarrow> pystr \<times> pystr \<Rightarrow> environ \<Rightarrow> environ" where
  "show_env_step to_upper kv safe_env =
     (if is_secret to_upper (fst kv) then AList.update (fst kv) (mask (snd kv)) safe_env
      else AList.update (fst kv) (snd kv) safe_env)"

definition safe_env_of :: "(nat \<Rightarrow> pystr) \<Rightarrow> environ \<Rightarrow> environ" where
  "safe_env_of to_upper env = fold (show_env_step to_upper) env []"

definition show_env :: "(nat \<Rightarrow> pystr) \<Rightarrow> environ \<Rightarrow> response" where
  "show_env to_upper env = \<lparr>code = 200,
     body = Json (map (\<lambda>(k, v). (k, JString v)) (safe_env_of to_upper env))\<rparr>"

definition db_check :: "environ \<Rightarrow> response" where
  "db_check env =
     (let db_url = environ_get_default env (str ''DATABASE_URL'') (str ''not configured'') in
      \<lparr>code = 200, body = Json
        [(str ''database'', JString (if contains db_url (str ''postgres'') then str ''configured''
                                     else str ''not configured''))]\<rparr>)"

definition cache_check :: "environ \<Rightarrow> response" where
  "cache_check env =
     (let redis_url = environ_get_default env (str ''REDIS_URL'') (str ''not configured'') in
      \<lparr>code = 200, body = Json
        [(str ''redis'', JString (if contains redis_url (str ''redis'') then str ''configured''
                                  else str ''not configured''))]\<rparr>)"

definition queue_check :: "environ \<Rightarrow> response" where
  "queue_check env =
     (let mq_url = environ_get_default env (str ''RABBITMQ_URL'') (str ''not configured'') in
      \<lparr>code = 200, body = Json
        [(str ''rabbitmq'', JString (if contains mq_url (str ''amqp'') then str ''configured''
                                     else str ''not configured''))]\<rparr>)"

definition services :: "environ \<Rightarrow> response" where
  "services env = \<lparr>code = 200, body = Json
     [(str ''database'', JBool (truthy (environ_get env (str ''DATABASE_URL'')))),
      (str ''redis'', JBool (truthy (environ_get env (str ''REDIS_URL'')))),
      (str ''rabbitmq'', JBool (truthy (environ_get env (str ''RABBITMQ_URL'')))),
      (str ''stripe'', JBool (truthy (environ_get env (str ''STRIPE_SECRET_KEY'')))),
      (str ''sendgrid'', JBool (truthy (environ_get env (str ''SENDGRID_API_KEY'')))),
      (str ''twilio'', JBool (truthy (environ_get env (str ''TWILIO_ACCOUNT_SID'')))),
      (str ''aws'', JBool (truthy (environ_get env (str ''AWS_ACCESS_KEY_ID'')))),
      (str ''google_oauth'', JBool (truthy (environ_get env (str ''GOOGLE_CLIENT_ID'')))),
      (str ''github_oauth'', JBool (truthy (environ_get env (str ''GITHUB_CLIENT_ID'')))),
      (str ''sentry'', JBool (truthy (environ_get env (str ''SENTRY_DSN'')))),
      (str ''openai'', JBool (truthy (environ_get env (str ''OPENAI_API_KEY''))))]\<rparr>"

text \<open>
  The script ends with \<^verbatim>\<open>app.run(host='0.0.0.0', port=8080, debug=True)\<close>: the address
  handed to the server is written in the call and reads nothing from the environment.
\<close>

record listener =
  host :: pystr
  port :: int

definition app_run :: "environ \<Rightarrow> listener" where
  "app_run env = \<lparr>host = str ''0.0.0.0'', port = 8080\<rparr>"

section \<open>The process around a request\<close>

text \<open>
  What the code can touch: the environment, the clock (the readings of
  \<^verbatim>\<open>time.time()\<close> and \<^verbatim>\<open>time.ctime()\<close>), the two diagnostic streams, and the
  connection. Everything written is kept, in order, in one trace, so that "before" and
  "after" can be read off. A stream that does not accept writes makes every write to it
  and every \<^verbatim>\<open>flush\<close> of it raise.
\<close>

datatype stream = Stdout | Stderr

datatype event =
    Printed stream pystr
  | Flushed stream
  | Log_request nat
  | Send_response nat
  | End_headers
  | Wfile_write bytes

datatype error = OSError | ValueError | UnicodeEncodeError | SystemExit int

record process =
  environ :: environ
  time_time :: real
  time_ctime :: pystr
  stdout_writable :: bool
  stderr_writable :: bool
  trace :: "event list"

type_synonym action = "process \<Rightarrow> (error + unit) \<times> process"

definition writable :: "process \<Rightarrow> stream \<Rightarrow> bool" where
  "writable p f = (case f of Stdout \<Rightarrow> stdout_writable p | Stderr \<Rightarrow> stderr_writable p)"

definition emit :: "event \<Rightarrow> process \<Rightarrow> process" where
  "emit e p = p\<lparr>trace := trace p @ [e]\<rparr>"

definition raise :: "error \<Rightarrow> action" where
  "raise e p = (Inl e, p)"

definition print_to :: "stream \<Rightarrow> pystr \<Rightarrow> action" where
  "print_to f text p = (if writable p f then (Inr (), emit (Printed f text) p) else raise OSError p)"

definition flush :: "stream \<Rightarrow> action" where
  "flush f p = (if writable p f then (Inr (), emit (Flushed f) p) else raise OSError p)"

text \<open>One statement after another: the second runs only if the first did not raise.\<close>

definition and_then :: "action \<Rightarrow> action \<Rightarrow> action" where
  "and_then a b p = (case a p of (Inl e, p') \<Rightarrow> (Inl e, p') | (Inr u, p') \<Rightarrow> b p')"

text \<open>
  The methods the handler inherits from \<^verbatim>\<open>BaseHTTPRequestHandler\<close>.
  \<^verbatim>\<open>send_response\<close> begins with \<^verbatim>\<open>log_request\<close>, which writes the access-log line to
  \<^verbatim>\<open>sys.stderr\<close>, and then queues the status line.
\<close>

definition log_request :: "nat \<Rightarrow> action" where
  "log_request c p = (if writable p Stderr then (Inr (), emit (Log_request c) p) else raise OSError p)"

definition send_response :: "nat \<Rightarrow> action" where
  "send_response c = and_then (log_request c) (\<lambda>p. (Inr (), emit (Send_response c) p))"

definition end_headers :: action where
  "end_headers p = (Inr (), emit End_headers p)"

definition wfile_write :: "bytes \<Rightarrow> action" where
  "wfile_write b p = (Inr (), emit (Wfile_write b) p)"

text \<open>\<^verbatim>\<open>sys.exit(n)\<close> raises \<^verbatim>\<open>SystemExit\<close>; nothing in the script catches it.\<close>

definition sys_exit :: "int \<Rightarrow> action" where
  "sys_exit n = raise (SystemExit n)"

text \<open>
  \<^verbatim>\<open>str.encode()\<close>: UTF-8, strict. A surrogate code point has no encoding and makes
  the call raise; every other code point becomes one to four bytes.
\<close>

definition surrogate :: "nat \<Rightarrow> bool" where
  "surrogate c = (0xD800 \<le> c \<and> c \<le> 0xDFFF)"

definition utf8 :: "nat \<Rightarrow> bytes" where
  "utf8 c =
     (if c < 0x80 then [char_of c]
      else if c < 0x800 then [char_of (0xC0 + c div 0x40), char_of (0x80 + c mod 0x40)]
      else if c < 0x10000 then
        [char_of (0xE0 + c div 0x1000), char_of (0x80 + c div 0x40 mod 0x40),
         char_of (0x80 + c mod 0x40)]
      else
        [char_of (0xF0 + c div 0x40000), char_of (0x80 + c div 0x1000 mod 0x40),
         char_of (0x80 + c div 0x40 mod 0x40), char_of (0x80 + c mod 0x40)])"

definition encode :: "pystr \<Rightarrow> error + bytes" where
  "encode s = (if list_ex surrogate s then Inl UnicodeEncodeError else Inr (concat (map utf8 s)))"

text \<open>A whole number as \<^verbatim>\<open>str\<close> and an f-string write it: in decimal.\<close>

function digits :: "nat \<Rightarrow> pystr" where
  "digits n = (if n < 10 then [48 + n] else digits (n div 10) @ [48 + n mod 10])"
  by pat_completeness auto

termination digits
  by (relation "measure id") auto

declare digits.simps [simp del]

definition int_str :: "int \<Rightarrow> pystr" where
  "int_str i = (if i < 0 then 45 # digits (nat (- i)) else digits (nat i))"

section \<open>The feature-test server (app.py)\<close>

definition newline :: nat where
  "newline = 0x0A"

definition inbox_tray :: nat where
  "inbox_tray = 0x1F4E5"

definition collision :: nat where
  "collision = 0x1F4A5"

definition rocket :: nat where
  "rocket = 0x1F680"

definition fire :: nat where
  "fire = 0x1F525"

text \<open>The text of line 10.\<close>

definition request_line :: "pystr \<Rightarrow> pystr \<Rightarrow> pystr" where
  "request_line now path = str ''['' @ now @ str ''] '' @ [inbox_tray] @ str '' Request: '' @ path"

text \<open>The text of line 25.\<close>

definition fallback_body :: "environ \<Rightarrow> pystr" where
  "fallback_body env =
     [rocket] @ str '' Hello from Arcane!'' @ [newline] @
     str ''Hostname: '' @ environ_get_default env (str ''HOSTNAME'') (str ''unknown'') @ [newline] @
     str ''Secret: '' @ environ_get_default env (str ''SECRET_KEY'') (str ''NOT_SET'') @ [newline]"

definition do_GET :: "pystr \<Rightarrow> action" where
  "do_GET path =
     and_then (\<lambda>p. print_to Stdout (request_line (time_ctime p) path) p)
    (and_then (flush Stdout)
      (if path = str ''/health'' then
         and_then (send_response 200) (and_then end_headers (wfile_write ''OK''))
       else if path = str ''/crash'' then
         and_then (print_to Stderr ([collision] @ str '' CRASHING NOW...'')) (sys_exit 1)
       else
         and_then (send_response 200)
        (and_then end_headers
          (\<lambda>p. case encode (fallback_body (environ p)) of
                 Inl e \<Rightarrow> raise e p
               | Inr b \<Rightarrow> wfile_write b p))))"

text \<open>
  Line 6, \<^verbatim>\<open>PORT = int(os.environ.get("PORT", 8080))\<close>. The builtin \<^verbatim>\<open>int\<close> on text
  is a parameter: it gives the number, or raises. On the default, already a number, it
  is the identity.
\<close>

definition PORT :: "(pystr \<Rightarrow> error + int) \<Rightarrow> environ \<Rightarrow> error + int" where
  "PORT to_int env =
     (case environ_get env (str ''PORT'') of None \<Rightarrow> Inr 8080 | Some s \<Rightarrow> to_int s)"

text \<open>The text of line 28.\<close>

definition startup_line :: "int \<Rightarrow> pystr" where
  "startup_line n =
     [fire] @ str '' Arcane Feature Test App starting on port '' @ int_str n @ str ''...''"

text \<open>
  The script from top to bottom, up to the call of line 30: line 6, the print and the
  flush of lines 28 and 29, then \<^verbatim>\<open>HTTPServer(('0.0.0.0', PORT), Handler)\<close>. The
  result is the address handed to \<^verbatim>\<open>HTTPServer\<close>, or the error that stopped the
  script before that; whether the operating system then grants the address is not
  described.
\<close>

definition startup :: "(pystr \<Rightarrow> error + int) \<Rightarrow> process \<Rightarrow> (error + listener) \<times> process" where
  "startup to_int p =
     (case PORT to_int (environ p) of
        Inl e \<Rightarrow> (Inl e, p)
      | Inr n \<Rightarrow>
          (case and_then (print_to Stdout (startup_line n)) (flush Stdout) p of
             (Inl e, p') \<Rightarrow> (Inl e, p')
           | (Inr u, p') \<Rightarrow> (Inr \<lparr>host = str ''0.0.0.0'', port = n\<rparr>, p')))"

section \<open>Routing in api.py\<close>

text \<open>
  The routes are the literal paths of the decorators. A path with no decorator has no
  view function in this file; what the framework answers there is not described here.
\<close>

definition route :: "(nat \<Rightarrow> pystr) \<Rightarrow> pystr \<Rightarrow> process \<Rightarrow> response option \<times> process" where
  "route to_upper path p =
     (if path = str ''/health'' then (Some (health (environ p)), p)
      else if path = str ''/'' then (Some (index (environ p) (time_time p)), p)
      else if path = str ''/env'' then (Some (show_env to_upper (environ p)), p)
      else if path = str ''/db-check'' then (Some (db_check (environ p)), p)
      else if path = str ''/cache-check'' then (Some (cache_check (environ p)), p)
      else if path = str ''/queue-check'' then (Some (queue_check (environ p)), p)
      else if path = str ''/services'' then (Some (services (environ p)), p)
      else (None, p))"

section \<open>Facts about the helpers\<close>

lemma str_eq_iff [simp]: "str a = str b \<longleftrightarrow> a = b"
  unfolding str_def by (simp add: inj_map_eq_map [OF inj_of_char])

lemma str_Nil [simp]: "str [] = []"
  by (simp add: str_def)

lemma str_eq_Nil [simp]: "str a = [] \<longleftrightarrow> a = []"
  by (simp add: str_def)

lemma contains_sublist: "contains hay needle \<longleftrightarrow> sublist needle hay"
  by (induction hay) (auto simp: sublist_Cons_right)

lemma prefix_str [simp]: "prefix (str a) (str b) \<longleftrightarrow> prefix a b"
proof
  assume "prefix (str a) (str b)"
  then obtain zs where "str b = str a @ zs"
    by (auto simp: prefix_def)
  then obtain a' z' where "b = a' @ z'" and "str a' = str a"
    unfolding str_def by (metis map_eq_append_conv)
  then show "prefix a b"
    by simp
next
  assume "prefix a b"
  then show "prefix (str a) (str b)"
    unfolding str_def by (rule map_mono_prefix)
qed

lemma contains_str [simp]: "contains (str hay) (str needle) \<longleftrightarrow> contains hay needle"
proof (induction hay)
  case Nil
  then show ?case
    using str_eq_Nil [of needle] by (simp del: str_eq_Nil add: str_def)
next
  case (Cons c cs)
  have "prefix (str needle) (str (c # cs)) \<longleftrightarrow> prefix needle (c # cs)"
    by (rule prefix_str)
  with Cons show ?case
    by (simp add: str_def)
qed

lemma is_secret_iff:
  "is_secret to_upper key \<longleftrightarrow>
     (\<exists>secret \<in> {str ''KEY'', str ''SECRET'', str ''PASSWORD'', str ''TOKEN''}.
        sublist secret (upper to_upper key))"
  unfolding is_secret_def list_ex_iff contains_sublist
  by (simp add: secrets_def)

lemma fold_show_env_step:
  "distinct (map fst (acc @ env)) \<Longrightarrow>
   fold (show_env_step to_upper) env acc =
     acc @ map (\<lambda>(k, v). (k, if is_secret to_upper k then mask v else v)) env"
proof (induction env arbitrary: acc)
  case Nil
  then show ?case by simp
next
  case (Cons kv env)
  obtain k v where kv: "kv = (k, v)"
    by (cases kv)
  from Cons.prems have fresh: "k \<notin> fst ` set acc"
    by (auto simp: kv)
  have upd: "AList.update k w acc = acc @ [(k, w)]" for w
    using fresh by (induction acc) auto
  have step: "show_env_step to_upper (k, v) acc =
      acc @ [(k, if is_secret to_upper k then mask v else v)]"
    by (simp add: show_env_step_def upd)
  have "distinct (map fst ((acc @ [(k, if is_secret to_upper k then mask v else v)]) @ env))"
    using Cons.prems by (auto simp: kv)
  from Cons.IH [OF this] show ?case
    by (simp add: kv step)
qed

lemma safe_env_of_distinct:
  "distinct (map fst env) \<Longrightarrow>
   safe_env_of to_upper env = map (\<lambda>(k, v). (k, if is_secret to_upper k then mask v else v)) env"
  using fold_show_env_step [of "[]" env] by (simp add: safe_env_of_def)

lemma check_status:
  assumes "\<not> contains dflt needle"
  shows "contains (environ_get_default env key dflt) needle \<longleftrightarrow>
     (\<exists>v. environ_get env key = Some v \<and> sublist needle v)"
  using assms
  by (cases "map_of env key")
     (simp_all add: environ_get_def environ_get_default_def contains_sublist)

lemma truthy_iff: "truthy x \<longleftrightarrow> (\<exists>v. x = Some v \<and> v \<noteq> [])"
  by (cases x) simp_all

section \<open>The /env view\<close>

text \<open>
  C1. The \<^verbatim>\<open>/env\<close> response lists every name of the snapshot, in order. A name whose
  upper-case form contains KEY, SECRET, PASSWORD or TOKEN carries the first four
  characters of its value followed by \<^verbatim>\<open>****\<close> when the value is longer than four
  characters, and \<^verbatim>\<open>****\<close> alone otherwise; every other name carries its value
  unchanged. Characters are code points, and the upper-case form is the one of the
  interpreter's table, whatever that table is.
\<close>

theorem show_env_masks:
  assumes "distinct (map fst env)"
  shows "show_env to_upper env = \<lparr>code = 200, body = Json (map (\<lambda>(k, v). (k, JString
     (if \<exists>secret \<in> {str ''KEY'', str ''SECRET'', str ''PASSWORD'', str ''TOKEN''}.
           sublist secret (upper to_upper k)
      then (if length v > 4 then take 4 v @ str ''****'' else str ''****'')
      else v))) env)\<rparr>"
proof -
  have "map (\<lambda>(k, v). (k, JString v)) (safe_env_of to_upper env) =
        map (\<lambda>(k, v). (k, JString (if is_secret to_upper k then mask v else v))) env"
    by (simp add: safe_env_of_distinct [OF assms] case_prod_beta)
  then show ?thesis
    unfolding show_env_def is_secret_iff mask_def by simp
qed

text \<open>
  The witness runs a table that upper-cases the ASCII letters and the sharp s (code point
  223, to SS): the name "paSSword" written with a sharp s is masked, a value of three
  e-acute (code point 233) is three characters long and gives the marker alone, and
  "abcdefgh" under Secret_Key gives "abcd****".
\<close>

theorem show_env_masks_witness:
  "distinct (map fst [(str ''PATH'', str ''/bin''), (str ''Secret_Key'', str ''abcdefgh''),
      (str ''pa'' @ [223] @ str ''word'', [233, 233, 233])]) \<and>
   show_env (\<lambda>c. if 97 \<le> c \<and> c \<le> 122 then [c - 32] else if c = 223 then [83, 83] else [c])
     [(str ''PATH'', str ''/bin''), (str ''Secret_Key'', str ''abcdefgh''),
      (str ''pa'' @ [223] @ str ''word'', [233, 233, 233])] =
     \<lparr>code = 200, body = Json
        [(str ''PATH'', JString (str ''/bin'')),
         (str ''Secret_Key'', JString (str ''abcd****'')),
         (str ''pa'' @ [223] @ str ''word'', JString (str ''****''))]\<rparr>"
proof -
  let ?up = "\<lambda>c::nat. if 97 \<le> c \<and> c \<le> 122 then [c - 32] else if c = 223 then [83, 83] else [c]"
  let ?env = "[(str ''PATH'', str ''/bin''), (str ''Secret_Key'', str ''abcdefgh''),
      (str ''pa'' @ [223] @ str ''word'', [233, 233, 233])]"
  have d: "distinct (map fst ?env)"
    by code_simp
  have "map (\<lambda>(k, v). (k, JString (if is_secret ?up k then mask v else v))) ?env =
        [(str ''PATH'', JString (str ''/bin'')),
         (str ''Secret_Key'', JString (str ''abcd****'')),
         (str ''pa'' @ [223] @ str ''word'', JString (str ''****''))]"
    by code_simp
  with show_env_masks [OF d, of ?up, folded is_secret_iff mask_def] d show ?thesis
    by simp
qed

section \<open>The dependency checks\<close>

text \<open>
  C2. \<^verbatim>\<open>/db-check\<close> answers "configured" exactly when \<^verbatim>\<open>DATABASE_URL\<close> is set and
  its raw value contains "postgres", and "not configured" otherwise, also when the
  name is absent from the snapshot.
\<close>

theorem db_check_status:
  "db_check env = \<lparr>code = 200, body = Json [(str ''database'', JString
     (if \<exists>v. environ_get env (str ''DATABASE_URL'') = Some v \<and> sublist (str ''postgres'') v
      then str ''configured'' else str ''not configured''))]\<rparr>"
proof -
  have dflt: "\<not> contains (str ''not configured'') (str ''postgres'')"
    by simp
  show ?thesis
    unfolding db_check_def Let_def check_status [OF dflt] ..
qed

theorem db_check_status_witness:
  "db_check [(str ''DATABASE_URL'', str ''postgres://x''), (str ''REDIS_URL'', [])] =
     \<lparr>code = 200, body = Json [(str ''database'', JString (str ''configured''))]\<rparr> \<and>
   db_check [] = \<lparr>code = 200, body = Json [(str ''database'', JString (str ''not configured''))]\<rparr>"
proof -
  let ?env = "[(str ''DATABASE_URL'', str ''postgres://x''), (str ''REDIS_URL'', [])]"
  have "environ_get ?env (str ''DATABASE_URL'') = Some (str ''postgres://x'')"
    by (simp add: environ_get_def)
  moreover have "sublist (str ''postgres'') (str ''postgres://x'')"
    unfolding contains_sublist [symmetric] by simp
  ultimately have
    "\<exists>v. environ_get ?env (str ''DATABASE_URL'') = Some v \<and> sublist (str ''postgres'') v"
    by blast
  then have set: "db_check ?env =
      \<lparr>code = 200, body = Json [(str ''database'', JString (str ''configured''))]\<rparr>"
    by (simp only: db_check_status [of ?env] if_True)
  have "\<not> (\<exists>v. environ_get [] (str ''DATABASE_URL'') = Some v \<and> sublist (str ''postgres'') v)"
    by (simp add: environ_get_def)
  then have unset: "db_check [] =
      \<lparr>code = 200, body = Json [(str ''database'', JString (str ''not configured''))]\<rparr>"
    by (simp only: db_check_status [of "[]"] if_False)
  from set unset show ?thesis
    by (rule conjI)
qed

text \<open>
  C10. \<^verbatim>\<open>/cache-check\<close> answers "configured" exactly when \<^verbatim>\<open>REDIS_URL\<close> is set and
  contains "redis"; \<^verbatim>\<open>/queue-check\<close> answers "configured" exactly when
  \<^verbatim>\<open>RABBITMQ_URL\<close> is set and contains "amqp". With the name absent the fallback
  text "not configured" is the one tested, and the answer is "not configured".
\<close>

theorem cache_queue_check_status:
  "cache_check env = \<lparr>code = 200, body = Json [(str ''redis'', JString
     (if \<exists>v. environ_get env (str ''REDIS_URL'') = Some v \<and> sublist (str ''redis'') v
      then str ''configured'' else str ''not configured''))]\<rparr> \<and>
   queue_check env = \<lparr>code = 200, body = Json [(str ''rabbitmq'', JString
     (if \<exists>v. environ_get env (str ''RABBITMQ_URL'') = Some v \<and> sublist (str ''amqp'') v
      then str ''configured'' else str ''not configured''))]\<rparr> \<and>
   (environ_get env (str ''REDIS_URL'') = None \<longrightarrow>
      environ_get_default env (str ''REDIS_URL'') (str ''not configured'') = str ''not configured'' \<and>
      \<not> contains (str ''not configured'') (str ''redis'')) \<and>
   (environ_get env (str ''RABBITMQ_URL'') = None \<longrightarrow>
      environ_get_default env (str ''RABBITMQ_URL'') (str ''not configured'') = str ''not configured'' \<and>
      \<not> contains (str ''not configured'') (str ''amqp''))"
proof -
  have r: "\<not> contains (str ''not configured'') (str ''redis'')"
    by simp
  have q: "\<not> contains (str ''not configured'') (str ''amqp'')"
    by simp
  have c1: "cache_check env = \<lparr>code = 200, body = Json [(str ''redis'', JString
     (if \<exists>v. environ_get env (str ''REDIS_URL'') = Some v \<and> sublist (str ''redis'') v
      then str ''configured'' else str ''not configured''))]\<rparr>"
    unfolding cache_check_def Let_def check_status [OF r] ..
  have c2: "queue_check env = \<lparr>code = 200, body = Json [(str ''rabbitmq'', JString
     (if \<exists>v. environ_get env (str ''RABBITMQ_URL'') = Some v \<and> sublist (str ''amqp'') v
      then str ''configured'' else str ''not configured''))]\<rparr>"
    unfolding queue_check_def Let_def check_status [OF q] ..
  have d: "environ_get env key = None \<longrightarrow> environ_get_default env key x = x" for key x
    by (simp add: environ_get_def environ_get_default_def)
  from c1 c2 d r q show ?thesis
    by blast
qed

theorem cache_queue_check_status_witness:
  "cache_check [(str ''REDIS_URL'', str ''redis://cache:6379'')] =
     \<lparr>code = 200, body = Json [(str ''redis'', JString (str ''configured''))]\<rparr> \<and>
   environ_get [(str ''REDIS_URL'', str ''redis://cache:6379'')] (str ''RABBITMQ_URL'') = None \<and>
   queue_check [(str ''REDIS_URL'', str ''redis://cache:6379'')] =
     \<lparr>code = 200, body = Json [(str ''rabbitmq'', JString (str ''not configured''))]\<rparr>"
proof -
  let ?env = "[(str ''REDIS_URL'', str ''redis://cache:6379'')]"
  have "environ_get ?env (str ''REDIS_URL'') = Some (str ''redis://cache:6379'')"
    by (simp add: environ_get_def)
  moreover have "sublist (str ''redis'') (str ''redis://cache:6379'')"
    unfolding contains_sublist [symmetric] by simp
  ultimately have c:
    "\<exists>v. environ_get ?env (str ''REDIS_URL'') = Some v \<and> sublist (str ''redis'') v"
    by blast
  have n: "environ_get ?env (str ''RABBITMQ_URL'') = None"
    by (simp add: environ_get_def)
  then have q:
    "\<not> (\<exists>v. environ_get ?env (str ''RABBITMQ_URL'') = Some v \<and> sublist (str ''amqp'') v)"
    by simp
  note st = cache_queue_check_status [of ?env]
  have "cache_check ?env =
      \<lparr>code = 200, body = Json [(str ''redis'', JString (str ''configured''))]\<rparr>"
    using st c by (simp only: if_True)
  moreover have "queue_check ?env =
      \<lparr>code = 200, body = Json [(str ''rabbitmq'', JString (str ''not configured''))]\<rparr>"
    using st q by (simp only: if_False)
  ultimately show ?thesis
    using n by blast
qed

section \<open>The /services view\<close>

text \<open>
  C3. \<^verbatim>\<open>/services\<close> reports, for each of its eleven dependencies, true exactly when
  the dependency's name is set in the snapshot to a non-empty value, whatever the value
  says; a name set to the empty text is reported false.
\<close>

theorem services_flags:
  "services env = \<lparr>code = 200, body = Json
     (map (\<lambda>(name, key). (str name, JBool (\<exists>v. environ_get env (str key) = Some v \<and> v \<noteq> [])))
       [(''database'', ''DATABASE_URL''), (''redis'', ''REDIS_URL''),
        (''rabbitmq'', ''RABBITMQ_URL''), (''stripe'', ''STRIPE_SECRET_KEY''),
        (''sendgrid'', ''SENDGRID_API_KEY''), (''twilio'', ''TWILIO_ACCOUNT_SID''),
        (''aws'', ''AWS_ACCESS_KEY_ID''), (''google_oauth'', ''GOOGLE_CLIENT_ID''),
        (''github_oauth'', ''GITHUB_CLIENT_ID''), (''sentry'', ''SENTRY_DSN''),
        (''openai'', ''OPENAI_API_KEY'')])\<rparr>"
  unfolding services_def truthy_iff by simp

theorem services_flags_witness:
  "services [(str ''DATABASE_URL'', str ''postgres://x''), (str ''REDIS_URL'', [])] =
     \<lparr>code = 200, body = Json
       [(str ''database'', JBool True), (str ''redis'', JBool False),
        (str ''rabbitmq'', JBool False), (str ''stripe'', JBool False),
        (str ''sendgrid'', JBool False), (str ''twilio'', JBool False),
        (str ''aws'', JBool False), (str ''google_oauth'', JBool False),
        (str ''github_oauth'', JBool False), (str ''sentry'', JBool False),
        (str ''openai'', JBool False)]\<rparr>"
  unfolding services_flags by (simp add: environ_get_def)

section \<open>The feature-test handler, path by path\<close>

lemmas action_defs =
  and_then_def print_to_def flush_def writable_def emit_def raise_def
  log_request_def send_response_def end_headers_def wfile_write_def sys_exit_def

lemma do_GET_unlogged: "\<not> stdout_writable p \<Longrightarrow> do_GET path p = (Inl OSError, p)"
  by (simp add: do_GET_def action_defs)





lemma do_GET_other:
  "stdout_writable p \<Longrightarrow> stderr_writable p \<Longrightarrow>
   path \<noteq> str ''/health'' \<Longrightarrow> path \<noteq> str ''/crash'' \<Longrightarrow>
   encode (fallback_body (environ p)) = Inr b \<Longrightarrow>
   do_GET path p = (Inr (), p\<lparr>trace := trace p @
     [Printed Stdout (request_line (time_ctime p) path), Flushed Stdout,
      Log_request 200, Send_response 200, End_headers, Wfile_write b]\<rparr>)"
  by (simp add: do_GET_def action_defs)

lemma do_GET_other_unencodable:
  "stdout_writable p \<Longrightarrow> stderr_writable p \<Longrightarrow>
   path \<noteq> str ''/health'' \<Longrightarrow> path \<noteq> str ''/crash'' \<Longrightarrow>
   encode (fallback_body (environ p)) = Inl e \<Longrightarrow>
   do_GET path p = (Inl e, p\<lparr>trace := trace p @
     [Printed Stdout (request_line (time_ctime p) path), Flushed Stdout,
      Log_request 200, Send_response 200, End_headers]\<rparr>)"
  by (simp add: do_GET_def action_defs)

section \<open>What an action may change\<close>

lemma and_then_frame:
  assumes a: "\<And>q. \<exists>evs. snd (a q) = q\<lparr>trace := trace q @ evs\<rparr>"
    and b: "\<And>q. \<exists>evs. snd (b q) = q\<lparr>trace := trace q @ evs\<rparr>"
  shows "\<exists>evs. snd (and_then a b p) = p\<lparr>trace := trace p @ evs\<rparr>"
proof -
  obtain r p' where ap: "a p = (r, p')"
    by (cases "a p")
  from a [of p] ap obtain evs1 where p': "p' = p\<lparr>trace := trace p @ evs1\<rparr>"
    by auto
  show ?thesis
  proof (cases r)
    case (Inl e)
    with ap p' have "snd (and_then a b p) = p\<lparr>trace := trace p @ evs1\<rparr>"
      by (simp add: and_then_def)
    then show ?thesis ..
  next
    case (Inr u)
    from b [of p'] obtain evs2 where "snd (b p') = p'\<lparr>trace := trace p' @ evs2\<rparr>"
      by auto
    with Inr ap p' have "snd (and_then a b p) = p\<lparr>trace := trace p @ (evs1 @ evs2)\<rparr>"
      by (simp add: and_then_def)
    then show ?thesis ..
  qed
qed

lemma emit_frame: "\<exists>evs. emit e p = p\<lparr>trace := trace p @ evs\<rparr>"
  unfolding emit_def by (rule exI [of _ "[e]"]) (rule refl)

lemma stay_frame: "\<exists>evs. p = p\<lparr>trace := trace p @ evs\<rparr>"
  by (rule exI [of _ "[]"]) simp

lemma raise_frame: "\<exists>evs. snd (raise e p) = p\<lparr>trace := trace p @ evs\<rparr>"
  by (simp add: raise_def stay_frame)

lemma print_to_frame: "\<exists>evs. snd (print_to f text p) = p\<lparr>trace := trace p @ evs\<rparr>"
  by (simp add: print_to_def emit_frame raise_frame)

lemma flush_frame: "\<exists>evs. snd (flush f p) = p\<lparr>trace := trace p @ evs\<rparr>"
  by (simp add: flush_def emit_frame raise_frame)

lemma log_request_frame: "\<exists>evs. snd (log_request c p) = p\<lparr>trace := trace p @ evs\<rparr>"
  by (simp add: log_request_def emit_frame raise_frame)

lemma send_response_frame: "\<exists>evs. snd (send_response c p) = p\<lparr>trace := trace p @ evs\<rparr>"
  unfolding send_response_def
  by (rule and_then_frame) (simp_all add: log_request_frame emit_frame)

lemma end_headers_frame: "\<exists>evs. snd (end_headers p) = p\<lparr>trace := trace p @ evs\<rparr>"
  by (simp add: end_headers_def emit_frame)

lemma wfile_write_frame: "\<exists>evs. snd (wfile_write b p) = p\<lparr>trace := trace p @ evs\<rparr>"
  by (simp add: wfile_write_def emit_frame)

lemma sys_exit_frame: "\<exists>evs. snd (sys_exit n p) = p\<lparr>trace := trace p @ evs\<rparr>"
  by (simp add: sys_exit_def raise_frame)

lemma encoded_write_frame:
  "\<exists>evs. snd (case encode t of Inl e \<Rightarrow> raise e p | Inr b \<Rightarrow> wfile_write b p) =
     p\<lparr>trace := trace p @ evs\<rparr>"
  by (cases "encode t") (simp_all add: raise_frame wfile_write_frame)

lemmas frames =
  print_to_frame flush_frame send_response_frame end_headers_frame wfile_write_frame
  sys_exit_frame encoded_write_frame

lemma do_GET_frame: "\<exists>evs. snd (do_GET path p) = p\<lparr>trace := trace p @ evs\<rparr>"
  unfolding do_GET_def
  by (intro and_then_frame) (simp_all add: frames and_then_frame)

lemma do_GET_logged:
  assumes "stdout_writable p"
  shows "\<exists>evs. snd (do_GET path p) = p\<lparr>trace := trace p @
     Printed Stdout (request_line (time_ctime p) path) # Flushed Stdout # evs\<rparr>"
proof -
  define rest where "rest =
     (if path = str ''/health'' then
         and_then (send_response 200) (and_then end_headers (wfile_write ''OK''))
       else if path = str ''/crash'' then
         and_then (print_to Stderr ([collision] @ str '' CRASHING NOW...'')) (sys_exit 1)
       else
         and_then (send_response 200)
        (and_then end_headers
          (\<lambda>p. case encode (fallback_body (environ p)) of
                 Inl e \<Rightarrow> raise e p
               | Inr b \<Rightarrow> wfile_write b p)))"
  define q where "q = p\<lparr>trace := trace p @
     [Printed Stdout (request_line (time_ctime p) path), Flushed Stdout]\<rparr>"
  have run: "do_GET path p = rest q"
    using assms
    by (simp add: do_GET_def rest_def [symmetric] q_def and_then_def print_to_def flush_def
        writable_def emit_def)
  have "\<exists>evs. snd (rest q) = q\<lparr>trace := trace q @ evs\<rparr>"
    unfolding rest_def by (simp add: frames and_then_frame)
  then obtain evs where "snd (rest q) = q\<lparr>trace := trace q @ evs\<rparr>"
    by blast
  with run have "snd (do_GET path p) = p\<lparr>trace := trace p @
     Printed Stdout (request_line (time_ctime p) path) # Flushed Stdout # evs\<rparr>"
    by (simp add: q_def)
  then show ?thesis ..
qed

section \<open>The health check\<close>




section \<open>The crash path\<close>




section \<open>The fallback greeting\<close>

lemma str_below_256: "c \<in> set (str s) \<Longrightarrow> c < 256"
proof -
  assume "c \<in> set (str s)"
  then obtain k where "c = of_char k"
    by (auto simp: str_def)
  moreover have "(of_char k :: nat) mod 256 = of_char k"
    by (rule of_char_mod_256)
  moreover have "(of_char k :: nat) mod 256 < 256"
    by simp
  ultimately show ?thesis
    by simp
qed

lemma str_no_surrogate: "c \<in> set (str s) \<Longrightarrow> \<not> surrogate c"
  using str_below_256 [of c s] by (simp add: surrogate_def)

lemma encode_plain: "\<forall>c \<in> set t. \<not> surrogate c \<Longrightarrow> encode t = Inr (concat (map utf8 t))"
  by (simp add: encode_def list_ex_iff)

lemma encode_surrogate: "c \<in> set t \<Longrightarrow> surrogate c \<Longrightarrow> encode t = Inl UnicodeEncodeError"
  by (auto simp: encode_def list_ex_iff)

text \<open>
  C8, as the specification states it, promises the three-line body on every other path.
  The body is encoded after the status line and the headers went out, and a value that
  holds a surrogate code point (the form an undecodable byte of the environment takes in
  \<^verbatim>\<open>os.environ\<close>) has no encoding: with such a \<^verbatim>\<open>HOSTNAME\<close> the handler raises
  \<^verbatim>\<open>UnicodeEncodeError\<close> and writes no body at all.
\<close>

theorem fallback_unencodable:
  "do_GET (str ''/hello'') \<lparr>environ = [(str ''HOSTNAME'', [0xDCFF])], time_time = 0,
      time_ctime = str ''Tue Nov  3 17:29:00 2026'', stdout_writable = True,
      stderr_writable = True, trace = []\<rparr> =
     (Inl UnicodeEncodeError, \<lparr>environ = [(str ''HOSTNAME'', [0xDCFF])], time_time = 0,
        time_ctime = str ''Tue Nov  3 17:29:00 2026'', stdout_writable = True,
        stderr_writable = True,
        trace = [Printed Stdout (request_line (str ''Tue Nov  3 17:29:00 2026'') (str ''/hello'')),
          Flushed Stdout, Log_request 200, Send_response 200, End_headers]\<rparr>)"
proof -
  let ?p = "\<lparr>environ = [(str ''HOSTNAME'', [0xDCFF])], time_time = 0,
      time_ctime = str ''Tue Nov  3 17:29:00 2026'', stdout_writable = True,
      stderr_writable = True, trace = []\<rparr>"
  have "0xDCFF \<in> set (fallback_body (environ ?p))"
    by (simp add: fallback_body_def environ_get_default_def)
  moreover have "surrogate 0xDCFF"
    by (simp add: surrogate_def)
  ultimately have "encode (fallback_body (environ ?p)) = Inl UnicodeEncodeError"
    by (rule encode_surrogate)
  then have "do_GET (str ''/hello'') ?p = (Inl UnicodeEncodeError, ?p\<lparr>trace := trace ?p @
     [Printed Stdout (request_line (time_ctime ?p) (str ''/hello'')), Flushed Stdout,
      Log_request 200, Send_response 200, End_headers]\<rparr>)"
    by (intro do_GET_other_unencodable) simp_all
  then show ?thesis
    by simp
qed

text \<open>
  C8, amended. When both diagnostic streams accept writes and neither value holds a
  surrogate code point, any path other than \<^verbatim>\<open>/health\<close> and \<^verbatim>\<open>/crash\<close> is answered
  with status 200 and a body that is the UTF-8 encoding of three newline-terminated
  lines: the greeting, "Hostname: " with the value of \<^verbatim>\<open>HOSTNAME\<close> (or "unknown"),
  and "Secret: " with the value of \<^verbatim>\<open>SECRET_KEY\<close> as it is (or "NOT_SET").
\<close>

theorem fallback_greeting:
  assumes "stdout_writable p" and "stderr_writable p"
    and "path \<noteq> str ''/health''" and "path \<noteq> str ''/crash''"
    and h: "h = (case environ_get (environ p) (str ''HOSTNAME'') of
                  None \<Rightarrow> str ''unknown'' | Some v \<Rightarrow> v)"
    and s: "s = (case environ_get (environ p) (str ''SECRET_KEY'') of
                  None \<Rightarrow> str ''NOT_SET'' | Some v \<Rightarrow> v)"
    and plain: "\<forall>c \<in> set h \<union> set s. \<not> surrogate c"
  shows "do_GET path p = (Inr (), p\<lparr>trace := trace p @
     [Printed Stdout (request_line (time_ctime p) path), Flushed Stdout,
      Log_request 200, Send_response 200, End_headers,
      Wfile_write (concat (map utf8 (concat (map (\<lambda>line. line @ [newline])
        [rocket # str '' Hello from Arcane!'', str ''Hostname: '' @ h,
         str ''Secret: '' @ s]))))]\<rparr>)"
proof -
  let ?lines = "concat (map (\<lambda>line. line @ [newline])
        [rocket # str '' Hello from Arcane!'', str ''Hostname: '' @ h, str ''Secret: '' @ s])"
  have body: "fallback_body (environ p) = ?lines"
    by (simp add: fallback_body_def environ_get_def environ_get_default_def h s)
  have "\<not> surrogate rocket" and "\<not> surrogate newline"
    by (simp_all add: surrogate_def rocket_def newline_def)
  with plain have "\<forall>c \<in> set ?lines. \<not> surrogate c"
    by (auto dest: str_no_surrogate)
  then have "encode ?lines = Inr (concat (map utf8 ?lines))"
    by (rule encode_plain)
  with body have "encode (fallback_body (environ p)) = Inr (concat (map utf8 ?lines))"
    by simp
  with assms(1-4) show ?thesis
    by (rule do_GET_other)
qed

lemma utf8_rocket: "utf8 rocket = [CHR 0xF0, CHR 0x9F, CHR 0x9A, CHR 0x80]"
  by (simp add: utf8_def rocket_def char_of_eq_iff)

lemma utf8_newline: "utf8 newline = [CHR 0x0A]"
  by (simp add: utf8_def newline_def char_of_eq_iff)

lemma utf8_str: "\<forall>c \<in> set s. of_char c < (128::nat) \<Longrightarrow> concat (map utf8 (str s)) = s"
  by (induction s) (simp_all add: str_def utf8_def)

theorem fallback_greeting_witness:
  "do_GET (str ''/hello'') \<lparr>environ = [(str ''SECRET_KEY'', str ''abcdefgh'')], time_time = 0,
      time_ctime = str ''Tue Nov  3 17:29:00 2026'', stdout_writable = True,
      stderr_writable = True, trace = []\<rparr> =
     (Inr (), \<lparr>environ = [(str ''SECRET_KEY'', str ''abcdefgh'')], time_time = 0,
        time_ctime = str ''Tue Nov  3 17:29:00 2026'', stdout_writable = True,
        stderr_writable = True,
        trace = [Printed Stdout (request_line (str ''Tue Nov  3 17:29:00 2026'') (str ''/hello'')),
          Flushed Stdout, Log_request 200, Send_response 200, End_headers,
          Wfile_write ([CHR 0xF0, CHR 0x9F, CHR 0x9A, CHR 0x80] @ '' Hello from Arcane!'' @
            [CHR 0x0A] @ ''Hostname: unknown'' @ [CHR 0x0A] @ ''Secret: abcdefgh'' @
            [CHR 0x0A])]\<rparr>)"
proof -
  let ?p = "\<lparr>environ = [(str ''SECRET_KEY'', str ''abcdefgh'')], time_time = 0,
      time_ctime = str ''Tue Nov  3 17:29:00 2026'', stdout_writable = True,
      stderr_writable = True, trace = []\<rparr>"
  have bytes: "concat (map utf8 (concat (map (\<lambda>line. line @ [newline])
        [rocket # str '' Hello from Arcane!'', str ''Hostname: '' @ str ''unknown'',
         str ''Secret: '' @ str ''abcdefgh'']))) =
      [CHR 0xF0, CHR 0x9F, CHR 0x9A, CHR 0x80] @ '' Hello from Arcane!'' @
        [CHR 0x0A] @ ''Hostname: unknown'' @ [CHR 0x0A] @ ''Secret: abcdefgh'' @ [CHR 0x0A]"
    by (simp add: utf8_rocket utf8_newline utf8_str)
  have "do_GET (str ''/hello'') ?p = (Inr (), ?p\<lparr>trace := trace ?p @
     [Printed Stdout (request_line (time_ctime ?p) (str ''/hello'')), Flushed Stdout,
      Log_request 200, Send_response 200, End_headers,
      Wfile_write (concat (map utf8 (concat (map (\<lambda>line. line @ [newline])
        [rocket # str '' Hello from Arcane!'', str ''Hostname: '' @ str ''unknown'',
         str ''Secret: '' @ str ''abcdefgh'']))))]\<rparr>)"
  proof (rule fallback_greeting)
    show "stdout_writable ?p" and "stderr_writable ?p"
      by simp_all
    show "str ''/hello'' \<noteq> str ''/health''" and "str ''/hello'' \<noteq> str ''/crash''"
      by simp_all
    show "str ''unknown'' = (case environ_get (environ ?p) (str ''HOSTNAME'') of
        None \<Rightarrow> str ''unknown'' | Some v \<Rightarrow> v)"
      by (simp add: environ_get_def)
    show "str ''abcdefgh'' = (case environ_get (environ ?p) (str ''SECRET_KEY'') of
        None \<Rightarrow> str ''NOT_SET'' | Some v \<Rightarrow> v)"
      by (simp add: environ_get_def)
    show "\<forall>c \<in> set (str ''unknown'') \<union> set (str ''abcdefgh''). \<not> surrogate c"
      using str_no_surrogate by blast
  qed
  then show ?thesis
    unfolding bytes by simp
qed

section \<open>The request log\<close>

text \<open>
  C6, as the specification states it, asks that a failing log write never fails the
  response. The handler has no guard around its \<^verbatim>\<open>print\<close>: with a standard output
  that does not accept writes, a request for \<^verbatim>\<open>/health\<close> raises before anything is
  sent.
\<close>

theorem log_failure_fails_response:
  "do_GET (str ''/health'') \<lparr>environ = [], time_time = 0,
      time_ctime = str ''Tue Nov  3 17:29:00 2026'', stdout_writable = False,
      stderr_writable = True, trace = []\<rparr> =
     (Inl OSError, \<lparr>environ = [], time_time = 0,
        time_ctime = str ''Tue Nov  3 17:29:00 2026'', stdout_writable = False,
        stderr_writable = True, trace = []\<rparr>)"
  by (simp add: do_GET_unlogged)

text \<open>
  C6, amended. In the feature-test handler, when standard output accepts writes, the
  first thing every request does is print the line "[timestamp] (inbox tray) Request:
  path" to standard output and flush it; whatever is sent on the connection comes after.
  When standard output does not accept writes the handler raises at once, and nothing
  is logged or sent.
\<close>

theorem request_logged_first:
  "(stdout_writable p \<longrightarrow>
      (\<exists>evs. trace (snd (do_GET path p)) = trace p @
         Printed Stdout
           (str ''['' @ time_ctime p @ str ''] '' @ [inbox_tray] @ str '' Request: '' @ path) #
         Flushed Stdout # evs)) \<and>
   (\<not> stdout_writable p \<longrightarrow> do_GET path p = (Inl OSError, p))"
proof (intro conjI impI)
  assume "stdout_writable p"
  then obtain evs where "snd (do_GET path p) = p\<lparr>trace := trace p @
     Printed Stdout (request_line (time_ctime p) path) # Flushed Stdout # evs\<rparr>"
    using do_GET_logged by blast
  then have "trace (snd (do_GET path p)) = trace p @
     Printed Stdout
       (str ''['' @ time_ctime p @ str ''] '' @ [inbox_tray] @ str '' Request: '' @ path) #
     Flushed Stdout # evs"
    by (simp add: request_line_def)
  then show "\<exists>evs. trace (snd (do_GET path p)) = trace p @
     Printed Stdout
       (str ''['' @ time_ctime p @ str ''] '' @ [inbox_tray] @ str '' Request: '' @ path) #
     Flushed Stdout # evs" ..
next
  assume "\<not> stdout_writable p"
  then show "do_GET path p = (Inl OSError, p)"
    by (rule do_GET_unlogged)
qed

theorem request_logged_first_witness:
  "stdout_writable \<lparr>environ = [], time_time = 0,
      time_ctime = str ''Tue Nov  3 17:29:00 2026'', stdout_writable = True,
      stderr_writable = True, trace = []\<rparr> \<and>
   (\<exists>evs. trace (snd (do_GET (str ''/health'') \<lparr>environ = [], time_time = 0,
      time_ctime = str ''Tue Nov  3 17:29:00 2026'', stdout_writable = True,
      stderr_writable = True, trace = []\<rparr>)) =
      Printed Stdout (str ''['' @ str ''Tue Nov  3 17:29:00 2026'' @ str ''] '' @
        [inbox_tray] @ str '' Request: '' @ str ''/health'') #
      Flushed Stdout # evs)"
  using request_logged_first [of "\<lparr>environ = [], time_time = 0,
      time_ctime = str ''Tue Nov  3 17:29:00 2026'', stdout_writable = True,
      stderr_writable = True, trace = []\<rparr>" "str ''/health''"]
  by simp

section \<open>The listening address\<close>

lemma startup_printed:
  "stdout_writable p \<Longrightarrow> PORT to_int (environ p) = Inr n \<Longrightarrow>
   startup to_int p = (Inr \<lparr>host = str ''0.0.0.0'', port = n\<rparr>, p\<lparr>trace := trace p @
     [Printed Stdout (startup_line n), Flushed Stdout]\<rparr>)"
  by (simp add: startup_def and_then_def print_to_def flush_def writable_def emit_def)

lemma startup_unprinted:
  "\<not> stdout_writable p \<Longrightarrow> PORT to_int (environ p) = Inr n \<Longrightarrow>
   startup to_int p = (Inl OSError, p)"
  by (simp add: startup_def and_then_def print_to_def writable_def raise_def)

lemma startup_rejected:
  "PORT to_int (environ p) = Inl e \<Longrightarrow> startup to_int p = (Inl e, p)"
  by (simp add: startup_def)

text \<open>
  C5, as the specification states it, has every service take its port from
  \<^verbatim>\<open>PORT\<close>. api.py does not: with \<^verbatim>\<open>PORT\<close> set to 9000 it still asks for 8080.
\<close>

theorem app_run_ignores_PORT:
  "environ_get [(str ''PORT'', str ''9000'')] (str ''PORT'') = Some (str ''9000'') \<and>
   port (app_run [(str ''PORT'', str ''9000'')]) = 8080 \<and>
   port (app_run [(str ''PORT'', str ''9000'')]) \<noteq> 9000"
  by (simp add: environ_get_def app_run_def)

text \<open>
  C5, amended. Both scripts hand the all-interfaces address \<^verbatim>\<open>0.0.0.0\<close> to their
  server. api.py hands over port 8080 whatever the snapshot holds. The feature-test
  script, when standard output accepts its startup line, hands over port 8080 when
  \<^verbatim>\<open>PORT\<close> is absent and the number \<^verbatim>\<open>int\<close> reads from \<^verbatim>\<open>PORT\<close> when it is
  set; when \<^verbatim>\<open>int\<close> rejects the text the script stops with that error, and when
  standard output does not accept the startup line it stops as well, in both cases
  before a server is created. Whether the operating system grants the address is not
  part of the statement.
\<close>

theorem listening_address:
  "app_run env = \<lparr>host = str ''0.0.0.0'', port = 8080\<rparr> \<and>
   (stdout_writable p \<and> environ_get (environ p) (str ''PORT'') = None \<longrightarrow>
      fst (startup to_int p) = Inr \<lparr>host = str ''0.0.0.0'', port = 8080\<rparr>) \<and>
   (\<forall>s n. stdout_writable p \<and> environ_get (environ p) (str ''PORT'') = Some s \<and>
        to_int s = Inr n \<longrightarrow>
      fst (startup to_int p) = Inr \<lparr>host = str ''0.0.0.0'', port = n\<rparr>) \<and>
   (\<forall>s e. environ_get (environ p) (str ''PORT'') = Some s \<and> to_int s = Inl e \<longrightarrow>
      startup to_int p = (Inl e, p)) \<and>
   (\<not> stdout_writable p \<longrightarrow> (\<exists>e. startup to_int p = (Inl e, p)))"
proof (intro conjI allI impI)
  show "app_run env = \<lparr>host = str ''0.0.0.0'', port = 8080\<rparr>"
    by (simp add: app_run_def)
next
  assume "stdout_writable p \<and> environ_get (environ p) (str ''PORT'') = None"
  then show "fst (startup to_int p) = Inr \<lparr>host = str ''0.0.0.0'', port = 8080\<rparr>"
    by (simp add: startup_printed PORT_def)
next
  fix s n
  assume "stdout_writable p \<and> environ_get (environ p) (str ''PORT'') = Some s \<and>
    to_int s = Inr n"
  then show "fst (startup to_int p) = Inr \<lparr>host = str ''0.0.0.0'', port = n\<rparr>"
    by (simp add: startup_printed PORT_def)
next
  fix s e
  assume "environ_get (environ p) (str ''PORT'') = Some s \<and> to_int s = Inl e"
  then show "startup to_int p = (Inl e, p)"
    by (simp add: startup_rejected PORT_def)
next
  assume closed: "\<not> stdout_writable p"
  show "\<exists>e. startup to_int p = (Inl e, p)"
  proof (cases "PORT to_int (environ p)")
    case (Inl e)
    then have "startup to_int p = (Inl e, p)"
      by (rule startup_rejected)
    then show ?thesis ..
  next
    case (Inr n)
    with closed have "startup to_int p = (Inl OSError, p)"
      by (rule startup_unprinted)
    then show ?thesis ..
  qed
qed

theorem listening_address_witness:
  "stdout_writable \<lparr>environ = [(str ''PORT'', str ''9000'')], time_time = 0,
      time_ctime = str ''Tue Nov  3 17:29:00 2026'', stdout_writable = True,
      stderr_writable = True, trace = []\<rparr> \<and>
   environ_get [(str ''PORT'', str ''9000'')] (str ''PORT'') = Some (str ''9000'') \<and>
   fst (startup (\<lambda>s. if s = str ''9000'' then Inr 9000 else Inl ValueError)
      \<lparr>environ = [(str ''PORT'', str ''9000'')], time_time = 0,
        time_ctime = str ''Tue Nov  3 17:29:00 2026'', stdout_writable = True,
        stderr_writable = True, trace = []\<rparr>) =
     Inr \<lparr>host = str ''0.0.0.0'', port = 9000\<rparr> \<and>
   fst (startup (\<lambda>s. if s = str ''9000'' then Inr 9000 else Inl ValueError)
      \<lparr>environ = [(str ''HOSTNAME'', str ''web-1'')], time_time = 0,
        time_ctime = str ''Tue Nov  3 17:29:00 2026'', stdout_writable = True,
        stderr_writable = True, trace = []\<rparr>) =
     Inr \<lparr>host = str ''0.0.0.0'', port = 8080\<rparr>"
proof -
  let ?int = "\<lambda>s. if s = str ''9000'' then Inr (9000::int) else Inl ValueError"
  let ?p = "\<lparr>environ = [(str ''PORT'', str ''9000'')], time_time = 0,
        time_ctime = str ''Tue Nov  3 17:29:00 2026'', stdout_writable = True,
        stderr_writable = True, trace = []\<rparr>"
  let ?q = "\<lparr>environ = [(str ''HOSTNAME'', str ''web-1'')], time_time = 0,
        time_ctime = str ''Tue Nov  3 17:29:00 2026'', stdout_writable = True,
        stderr_writable = True, trace = []\<rparr>"
  have out: "stdout_writable ?p"
    by simp
  have get: "environ_get [(str ''PORT'', str ''9000'')] (str ''PORT'') = Some (str ''9000'')"
    by (simp add: environ_get_def)
  have set: "stdout_writable ?p \<and> environ_get (environ ?p) (str ''PORT'') = Some (str ''9000'') \<and>
      ?int (str ''9000'') = Inr 9000"
    by (simp add: environ_get_def)
  have unset: "stdout_writable ?q \<and> environ_get (environ ?q) (str ''PORT'') = None"
    by (simp add: environ_get_def)
  from listening_address [of "[]" ?p ?int] set
  have a: "fst (startup ?int ?p) = Inr \<lparr>host = str ''0.0.0.0'', port = 9000\<rparr>"
    by blast
  from listening_address [of "[]" ?q ?int] unset
  have b: "fst (startup ?int ?q) = Inr \<lparr>host = str ''0.0.0.0'', port = 8080\<rparr>"
    by blast
  from out get a b show ?thesis
    by (intro conjI)
qed

section \<open>No write path\<close>

text \<open>
  C9. Handling a request writes nothing but output. The feature-test handler, on every
  path and whether or not it raises, leaves the process as it was apart from the events
  it appended to the trace of what was printed and sent; in particular the environment
  is the one it started with. The view functions of api.py leave the process exactly as
  it was, on every path.
\<close>

theorem handlers_read_only:
  "(\<exists>evs. snd (do_GET path p) = p\<lparr>trace := trace p @ evs\<rparr>) \<and>
   environ (snd (do_GET path p)) = environ p \<and>
   snd (route to_upper path p) = p"
proof -
  obtain evs where run: "snd (do_GET path p) = p\<lparr>trace := trace p @ evs\<rparr>"
    using do_GET_frame by blast
  then have "environ (snd (do_GET path p)) = environ p"
    by simp
  moreover have "snd (route to_upper path p) = p"
    by (simp add: route_def)
  ultimately show ?thesis
    using run by blast
qed

theorem handlers_read_only_witness:
  "environ (snd (do_GET (str ''/crash'') \<lparr>environ = [(str ''SECRET_KEY'', str ''abcdefgh'')],
      time_time = 0, time_ctime = str ''Tue Nov  3 17:29:00 2026'', stdout_writable = True,
      stderr_writable = True, trace = []\<rparr>)) = [(str ''SECRET_KEY'', str ''abcdefgh'')] \<and>
   snd (route (\<lambda>c. [c]) (str ''/env'') \<lparr>environ = [(str ''SECRET_KEY'', str ''abcdefgh'')],
      time_time = 0, time_ctime = str ''Tue Nov  3 17:29:00 2026'', stdout_writable = True,
      stderr_writable = True, trace = []\<rparr>) =
     \<lparr>environ = [(str ''SECRET_KEY'', str ''abcdefgh'')], time_time = 0,
      time_ctime = str ''Tue Nov  3 17:29:00 2026'', stdout_writable = True,
      stderr_writable = True, trace = []\<rparr>"
  using
    handlers_read_only [of "str ''/crash''" "\<lparr>environ = [(str ''SECRET_KEY'', str ''abcdefgh'')],
      time_time = 0, time_ctime = str ''Tue Nov  3 17:29:00 2026'', stdout_writable = True,
      stderr_writable = True, trace = []\<rparr>" "\<lambda>c. [c]"]
    handlers_read_only [of "str ''/env''" "\<lparr>environ = [(str ''SECRET_KEY'', str ''abcdefgh'')],
      time_time = 0, time_ctime = str ''Tue Nov  3 17:29:00 2026'', stdout_writable = True,
      stderr_writable = True, trace = []\<rparr>" "\<lambda>c. [c]"]
  by simp

end
